theory Spec2Isabelle
  imports Complex_Main
begin

section \<open>Python values, exceptions and strings\<close>

text \<open>
  The program is dynamically typed: the constructors of \<open>Transaction\<close> and \<open>Budget\<close>
  inspect the run-time type of every argument, and \<open>load_budgets\<close> works on whatever
  \<open>json.load\<close> returns. Arguments and JSON documents are therefore values of
  \<open>pyval\<close>. A Python \<open>float\<close> is modelled as a real number (no rounding, no NaN, no
  infinities), an \<open>int\<close> as an integer; a \<open>str\<close> is a list of characters with code
  points below 256. A \<open>dict\<close> with string keys is an association list whose first
  binding of a key is the dictionary's value for it.
\<close>

record datetime =
  year :: nat
  month :: nat
  day :: nat
  time_of_day :: nat

datatype pyval =
    PyNone
  | PyBool bool
  | PyInt int
  | PyFloat real
  | PyStr string
  | PyDatetime datetime
  | PyList "pyval list"
  | PyDict "(string \<times> pyval) list"

text \<open>
  Exceptions are values. \<open>JSONDecodeError\<close> is what \<open>json.load\<close> raises on text that
  is not JSON and \<open>CsvError\<close> is the \<open>csv\<close> module's own exception; both are kept
  apart from the exceptions the program raises and catches by name.
\<close>

datatype error =
    ValueError string
  | TypeError string
  | KeyError string
  | JSONDecodeError
  | CsvError

text \<open>\<open>isinstance(v, (int, float))\<close>: \<open>bool\<close> is a subclass of \<open>int\<close>.\<close>

fun py_number :: "pyval \<Rightarrow> real option" where
  "py_number (PyInt n) = Some (real_of_int n)"
| "py_number (PyFloat x) = Some x"
| "py_number (PyBool b) = Some (if b then 1 else 0)"
| "py_number _ = None"

text \<open>\<open>str.isspace\<close> on the code points below 256, and \<open>str.strip()\<close>.\<close>

definition py_isspace :: "char \<Rightarrow> bool" where
  "py_isspace c =
     (let n = (of_char c :: nat)
      in (9 \<le> n \<and> n \<le> 13) \<or> (28 \<le> n \<and> n \<le> 32) \<or> n = 133 \<or> n = 160)"

definition py_strip :: "string \<Rightarrow> string" where
  "py_strip s = rev (dropWhile py_isspace (rev (dropWhile py_isspace s)))"

section \<open>Dates: \<open>strptime\<close> and \<open>strftime\<close> with the format \<open>%Y-%m-%d\<close>\<close>

definition digit_char :: "nat \<Rightarrow> char" where
  "digit_char n = ''0123456789'' ! (n mod 10)"

definition digit_val :: "char \<Rightarrow> nat option" where
  "digit_val c =
     map_of [(CHR ''0'', 0), (CHR ''1'', 1), (CHR ''2'', 2), (CHR ''3'', 3), (CHR ''4'', 4),
             (CHR ''5'', 5), (CHR ''6'', 6), (CHR ''7'', 7), (CHR ''8'', 8), (CHR ''9'', 9)] c"

text \<open>The value of a character already known to be a digit.\<close>

definition digit_of :: "char \<Rightarrow> nat" where
  "digit_of c = (case digit_val c of Some n \<Rightarrow> n | None \<Rightarrow> 0)"

definition pad2 :: "nat \<Rightarrow> string" where
  "pad2 n = [digit_char (n div 10), digit_char n]"

definition pad4 :: "nat \<Rightarrow> string" where
  "pad4 n = [digit_char (n div 1000), digit_char (n div 100), digit_char (n div 10), digit_char n]"

definition is_leap :: "nat \<Rightarrow> bool" where
  "is_leap y = (y mod 4 = 0 \<and> (y mod 100 \<noteq> 0 \<or> y mod 400 = 0))"

definition days_in_month :: "nat \<Rightarrow> nat \<Rightarrow> nat" where
  "days_in_month y m =
     (if m = 2 then (if is_leap y then 29 else 28)
      else if m = 4 \<or> m = 6 \<or> m = 9 \<or> m = 11 then 30 else 31)"


text \<open>
  \<open>date.strftime('%Y-%m-%d')\<close>, with \<open>%Y\<close> as Python documents it: four digits,
  zero padded.
\<close>

definition strftime :: "datetime \<Rightarrow> string" where
  "strftime d = pad4 (year d) @ ''-'' @ pad2 (month d) @ ''-'' @ pad2 (day d)"

text \<open>
  \<open>datetime.strptime(s, '%Y-%m-%d')\<close>. The library turns the format into a regular
  expression and matches it against the start of the string: \<open>%Y\<close> is four digits,
  \<open>%m\<close> is \<open>1[0-2]|0[1-9]|[1-9]\<close>, \<open>%d\<close> is \<open>3[01]|[12]\d|0[1-9]|[1-9]| [1-9]\<close>.
  Text left over after the match, a year 0 and a day the month does not have are each a
  \<open>ValueError\<close>. The functions below return the number matched and the rest of the text.
\<close>

fun match_year :: "string \<Rightarrow> (nat \<times> string) option" where
  "match_year (a # b # c # d # rest) =
     (case (digit_val a, digit_val b, digit_val c, digit_val d) of
        (Some x, Some y, Some z, Some w) \<Rightarrow> Some (1000 * x + 100 * y + 10 * z + w, rest)
      | _ \<Rightarrow> None)"
| "match_year _ = None"

definition match_month_then_dash :: "string \<Rightarrow> (nat \<times> string) option" where
  "match_month_then_dash s =
     (case s of
        a # b # c # rest \<Rightarrow>
          (if a = CHR ''1'' \<and> b \<in> set ''012'' \<and> c = CHR ''-''
             then Some (10 + digit_of b, rest)
           else if a = CHR ''0'' \<and> b \<in> set ''123456789'' \<and> c = CHR ''-''
             then Some (digit_of b, rest)
           else if a \<in> set ''123456789'' \<and> b = CHR ''-''
             then Some (digit_of a, c # rest)
           else None)
      | [a, b] \<Rightarrow>
          (if a \<in> set ''123456789'' \<and> b = CHR ''-'' then Some (digit_of a, [])
           else None)
      | _ \<Rightarrow> None)"

definition match_day :: "string \<Rightarrow> (nat \<times> string) option" where
  "match_day s =
     (case s of
        [] \<Rightarrow> None
      | [a] \<Rightarrow> (if a \<in> set ''123456789'' then Some (digit_of a, []) else None)
      | a # b # rest \<Rightarrow>
          (if a = CHR ''3'' \<and> b \<in> set ''01'' then Some (30 + digit_of b, rest)
           else if a \<in> set ''12'' \<and> b \<in> set ''0123456789''
             then Some (10 * digit_of a + digit_of b, rest)
           else if a = CHR ''0'' \<and> b \<in> set ''123456789'' then Some (digit_of b, rest)
           else if a \<in> set ''123456789'' then Some (digit_of a, b # rest)
           else if a = CHR '' '' \<and> b \<in> set ''123456789'' then Some (digit_of b, rest)
           else None))"

definition strptime :: "string \<Rightarrow> error + datetime" where
  "strptime s =
     (case match_year s of
        None \<Rightarrow> Inl (ValueError ''time data does not match format'')
      | Some (y, s1) \<Rightarrow>
          (case s1 of
             [] \<Rightarrow> Inl (ValueError ''time data does not match format'')
           | dash # s2 \<Rightarrow>
               if dash \<noteq> CHR ''-'' then Inl (ValueError ''time data does not match format'')
               else
                 (case match_month_then_dash s2 of
                    None \<Rightarrow> Inl (ValueError ''time data does not match format'')
                  | Some (m, s3) \<Rightarrow>
                      (case match_day s3 of
                         None \<Rightarrow> Inl (ValueError ''time data does not match format'')
                       | Some (d, s4) \<Rightarrow>
                           if s4 \<noteq> [] then Inl (ValueError ''unconverted data remains'')
                           else if y = 0 then Inl (ValueError ''year 0 is out of range'')
                           else if days_in_month y m < d
                             then Inl (ValueError ''day is out of range for month'')
                           else Inr \<lparr>year = y, month = m, day = d, time_of_day = 0\<rparr>))))"

section \<open>Transaction (transaction.py)\<close>

record transaction =
  date :: datetime
  transaction_type :: string
  category :: string
  amount :: real
  description :: string

text \<open>The five validation blocks of \<open>Transaction.__init__\<close>, in the source's order.\<close>

definition validate_date :: "pyval \<Rightarrow> error + datetime" where
  "validate_date d =
     (case d of
        PyStr s \<Rightarrow>
          (case strptime s of
             Inl e \<Rightarrow> Inl (ValueError ''Invalid date format. Use YYYY-MM-DD'')
           | Inr dt \<Rightarrow> Inr dt)
      | PyDatetime dt \<Rightarrow> Inr dt
      | _ \<Rightarrow> Inl (TypeError ''Date must be datetime or string in YYYY-MM-DD format''))"

definition validate_transaction_type :: "pyval \<Rightarrow> error + string" where
  "validate_transaction_type t =
     (if t = PyStr ''income'' then Inr ''income''
      else if t = PyStr ''expense'' then Inr ''expense''
      else Inl (ValueError ''Transaction type must be income or expense''))"

definition validate_category :: "pyval \<Rightarrow> error + string" where
  "validate_category c =
     (case c of
        PyStr s \<Rightarrow>
          (if py_strip s = [] then Inl (ValueError ''Category must be a non-empty string'')
           else Inr s)
      | _ \<Rightarrow> Inl (ValueError ''Category must be a non-empty string''))"

definition validate_amount :: "pyval \<Rightarrow> error + real" where
  "validate_amount a =
     (case py_number a of
        None \<Rightarrow> Inl (TypeError ''Amount must be a number'')
      | Some x \<Rightarrow>
          (if x < 0 then Inl (ValueError ''Amount must be a non-negative number'')
           else Inr x))"

definition validate_description :: "pyval \<Rightarrow> error + string" where
  "validate_description d =
     (case d of
        PyStr s \<Rightarrow> Inr s
      | _ \<Rightarrow> Inl (ValueError ''Description must be a string.''))"

definition Transaction_init ::
  "pyval \<Rightarrow> pyval \<Rightarrow> pyval \<Rightarrow> pyval \<Rightarrow> pyval \<Rightarrow> error + transaction" where
  "Transaction_init d t c a ds =
     (case validate_date d of
        Inl e \<Rightarrow> Inl e
      | Inr dt \<Rightarrow>
     (case validate_transaction_type t of
        Inl e \<Rightarrow> Inl e
      | Inr ty \<Rightarrow>
     (case validate_category c of
        Inl e \<Rightarrow> Inl e
      | Inr cat \<Rightarrow>
     (case validate_amount a of
        Inl e \<Rightarrow> Inl e
      | Inr x \<Rightarrow>
     (case validate_description ds of
        Inl e \<Rightarrow> Inl e
      | Inr s \<Rightarrow>
          Inr \<lparr>date = dt, transaction_type = ty, category = cat, amount = x,
               description = s\<rparr>)))))"

text \<open>
  \<open>Transaction.get_details\<close> returns a dictionary with five fixed keys; it is a record
  here, one field per key.
\<close>

record transaction_details =
  details_date :: string
  details_transaction_type :: string
  details_category :: string
  details_amount :: real
  details_description :: string

definition Transaction_get_details :: "transaction \<Rightarrow> transaction_details" where
  "Transaction_get_details t =
     \<lparr>details_date = strftime (date t),
      details_transaction_type = transaction_type t,
      details_category = category t,
      details_amount = amount t,
      details_description = description t\<rparr>"

section \<open>Budget (budget.py)\<close>

text \<open>
  \<open>spent_amount\<close> is a Python value: the constructor sets it to \<open>0.0\<close> and
  \<open>add_expense\<close> adds a float to it, but \<open>load_budgets\<close> assigns to it whatever the
  stored record holds under \<open>"spent_amount"\<close>, unchecked.
\<close>

record budget =
  category :: string
  allocated_amount :: real
  spent_amount :: pyval
  period :: string

definition Budget_init :: "pyval \<Rightarrow> pyval \<Rightarrow> pyval \<Rightarrow> error + budget" where
  "Budget_init c a p =
     (case validate_category c of
        Inl e \<Rightarrow> Inl e
      | Inr cat \<Rightarrow>
     (case py_number a of
        None \<Rightarrow> Inl (TypeError ''Allocated amount must be a number'')
      | Some x \<Rightarrow>
          if x \<le> 0 then Inl (ValueError ''Allocated amount must be positive'')
          else
            (case p of
               PyStr s \<Rightarrow>
                 Inr \<lparr>category = cat, allocated_amount = x, spent_amount = PyFloat 0,
                      period = s\<rparr>
             | _ \<Rightarrow> Inl (TypeError ''Period must be a string''))))"

text \<open>
  \<open>v += x\<close> and \<open>x - v\<close> for a float \<open>x\<close>: defined when \<open>v\<close> is a number, a
  \<open>TypeError\<close> for every other value.
\<close>

definition py_add_float :: "pyval \<Rightarrow> real \<Rightarrow> error + pyval" where
  "py_add_float v x =
     (case py_number v of
        Some y \<Rightarrow> Inr (PyFloat (y + x))
      | None \<Rightarrow> Inl (TypeError ''unsupported operand type(s) for +=''))"


text \<open>
  A method that mutates its object returns the object after the call together with the
  exception raised, if any: what was assigned before a \<open>raise\<close> stays assigned.
\<close>

definition add_expense :: "budget \<Rightarrow> transaction \<Rightarrow> budget \<times> error option" where
  "add_expense b t =
     (if transaction_type t \<noteq> ''expense''
        then (b, Some (ValueError ''Transaction must be an expense''))
      else if transaction.category t \<noteq> category b
        then (b, Some (ValueError ''Transaction category must match budget category''))
      else
        (case py_add_float (spent_amount b) (amount t) of
           Inl e \<Rightarrow> (b, Some e)
         | Inr v \<Rightarrow> (b\<lparr>spent_amount := v\<rparr>, None)))"



section \<open>FinanceManager (finance_manager.py): the in-memory operations\<close>

record finance_manager =
  transactions :: "transaction list"
  budgets :: "budget list"

text \<open>What the manager prints, one constructor per \<open>print\<close> call of the methods modelled.\<close>

datatype message =
    NoBudgetFound string
  | SkippingTransactionRow "string list"
  | SkippingBudgetEntry pyval
  | ErrorSavingTransactions
  | ErrorLoadingTransactions
  | ErrorSavingBudgets
  | ErrorLoadingBudgets

text \<open>
  The \<open>for ... break ... else\<close> loop of \<open>add_transaction\<close>: the first budget whose
  category equals the \<open>category\<close> argument receives the expense; with no such budget
  the \<open>else\<close> branch prints.
\<close>

fun update_first_budget ::
  "budget list \<Rightarrow> pyval \<Rightarrow> transaction \<Rightarrow> budget list \<times> message list \<times> error option" where
  "update_first_budget [] c t = ([], [NoBudgetFound (transaction.category t)], None)"
| "update_first_budget (b # bs) c t =
     (if PyStr (category b) = c then
        (case add_expense b t of (b', r) \<Rightarrow> (b' # bs, [], r))
      else
        (case update_first_budget bs c t of (bs', ms, r) \<Rightarrow> (b # bs', ms, r)))"

definition add_transaction ::
  "finance_manager \<Rightarrow> pyval \<Rightarrow> pyval \<Rightarrow> pyval \<Rightarrow> pyval \<Rightarrow> pyval \<Rightarrow>
     finance_manager \<times> message list \<times> error option" where
  "add_transaction fm d ty c a ds =
     (case Transaction_init d ty c a ds of
        Inl e \<Rightarrow> (fm, [], Some e)
      | Inr t \<Rightarrow>
          (let fm1 = fm\<lparr>transactions := transactions fm @ [t]\<rparr>
           in if ty = PyStr ''expense'' then
                (case update_first_budget (budgets fm1) c t of
                   (bs, ms, r) \<Rightarrow> (fm1\<lparr>budgets := bs\<rparr>, ms, r))
              else (fm1, [], None)))"

text \<open>The duplicate check of \<open>add_budget\<close>: the first budget with that category.\<close>

fun find_budget :: "budget list \<Rightarrow> pyval \<Rightarrow> budget option" where
  "find_budget [] c = None"
| "find_budget (b # bs) c = (if PyStr (category b) = c then Some b else find_budget bs c)"

definition add_budget ::
  "finance_manager \<Rightarrow> pyval \<Rightarrow> pyval \<Rightarrow> pyval \<Rightarrow>
     finance_manager \<times> message list \<times> error option" where
  "add_budget fm c a p =
     (case find_budget (budgets fm) c of
        Some b \<Rightarrow>
          (fm, [], Some (ValueError (''Budget for category '' @ category b @ '' already exists'')))
      | None \<Rightarrow>
          (case Budget_init c a p of
             Inl e \<Rightarrow> (fm, [], Some e)
           | Inr b \<Rightarrow> (fm\<lparr>budgets := budgets fm @ [b]\<rparr>, [], None)))"

section \<open>Persistence: the files\<close>

text \<open>
  A backing file is missing, or exists but cannot be read or written (\<open>Denied\<close>:
  opening it, or the first access to it, raises \<open>PermissionError\<close> or another
  \<open>OSError\<close>), or has content. An error that strikes after part of a file has been
  read is not modelled. The transaction file is
  text, character by character as \<open>csv.writer\<close> wrote it (it is opened for writing with
  \<open>newline=''\<close>, so nothing is translated on the way out). The budget file is a JSON
  document: \<open>json.dump\<close> and \<open>json.load\<close> are taken as inverse on the values
  \<open>save_budgets\<close> writes (numbers, strings, lists, dictionaries with string keys), so the
  document is the value it denotes; \<open>NotJson\<close> stands for text \<open>json.load\<close> rejects.
\<close>

datatype 'a stored_file = Missing | Denied | Content 'a

datatype json_text = NotJson | Json pyval

record files =
  transaction_file :: "string stored_file"
  budget_file :: "json_text stored_file"

abbreviation CR :: char where "CR \<equiv> CHR 0x0D"
abbreviation LF :: char where "LF \<equiv> CHR 0x0A"
abbreviation DQUOTE :: char where "DQUOTE \<equiv> CHR 0x22"
abbreviation COMMA :: char where "COMMA \<equiv> CHR 0x2C"

subsection \<open>\<open>csv.writer\<close> with the default dialect\<close>

text \<open>
  Delimiter \<open>,\<close>, quote character \<open>"\<close>, \<open>QUOTE_MINIMAL\<close>, \<open>doublequote\<close>, line
  terminator \<open>\r\n\<close>: a field is quoted when it contains the delimiter, the quote
  character or a character of the line terminator, and a quote inside it is doubled. A
  row that would be empty text (one empty field) is written as \<open>""\<close>.
\<close>

definition needs_quotes :: "string \<Rightarrow> bool" where
  "needs_quotes f = list_ex (\<lambda>c. c = COMMA \<or> c = DQUOTE \<or> c = CR \<or> c = LF) f"

definition quote_field :: "string \<Rightarrow> string" where
  "quote_field f =
     (if needs_quotes f
        then [DQUOTE] @ concat (map (\<lambda>c. if c = DQUOTE then [DQUOTE, DQUOTE] else [c]) f) @ [DQUOTE]
      else f)"

fun join_fields :: "string list \<Rightarrow> string" where
  "join_fields [] = []"
| "join_fields [f] = f"
| "join_fields (f # g # fs) = f @ [COMMA] @ join_fields (g # fs)"

definition writerow :: "string list \<Rightarrow> string" where
  "writerow row =
     (let body = join_fields (map quote_field row)
      in (if row \<noteq> [] \<and> body = [] then [DQUOTE, DQUOTE] else body) @ [CR, LF])"

subsection \<open>Reading text with universal newlines\<close>

text \<open>
  \<open>load_transactions\<close> opens the file without \<open>newline=''\<close>: in this mode Python
  translates \<open>\r\n\<close> and a lone \<open>\r\<close> to \<open>\n\<close> as it reads, and iterating over the
  file yields the lines, each with its \<open>\n\<close>.
\<close>

fun universal_newlines :: "string \<Rightarrow> string" where
  "universal_newlines [] = []"
| "universal_newlines [c] = (if c = CR then [LF] else [c])"
| "universal_newlines (c # d # cs) =
     (if c = CR \<and> d = LF then LF # universal_newlines cs
      else if c = CR then LF # universal_newlines (d # cs)
      else c # universal_newlines (d # cs))"

fun split_lines :: "string \<Rightarrow> string \<Rightarrow> string list" where
  "split_lines cur [] = (if cur = [] then [] else [cur])"
| "split_lines cur (c # cs) =
     (if c = LF then (cur @ [c]) # split_lines [] cs else split_lines (cur @ [c]) cs)"

definition file_lines :: "string \<Rightarrow> string list" where
  "file_lines text = split_lines [] (universal_newlines text)"

subsection \<open>\<open>csv.reader\<close> with the default dialect\<close>

text \<open>
  The reader is the state machine of the \<open>csv\<close> module, for the default dialect (no
  escape character, not strict, no \<open>skipinitialspace\<close>). Its state is the parser state,
  the fields of the record so far and the field being read. It is fed the characters of
  each line and, after each line, an end-of-line mark (\<open>None\<close> here). A field that
  reaches the module's field size limit is an error of the module.
\<close>

datatype parser_state =
    START_RECORD
  | START_FIELD
  | IN_FIELD
  | IN_QUOTED_FIELD
  | QUOTE_IN_QUOTED_FIELD
  | EAT_CRNL

type_synonym reader = "parser_state \<times> string list \<times> string"

definition field_limit :: nat where
  "field_limit = 131072"

definition parse_add_char :: "parser_state \<Rightarrow> string list \<Rightarrow> string \<Rightarrow> char \<Rightarrow> error + reader" where
  "parse_add_char st fs f c =
     (if field_limit \<le> length f then Inl CsvError else Inr (st, fs, f @ [c]))"

definition parse_save_field :: "parser_state \<Rightarrow> string list \<Rightarrow> string \<Rightarrow> error + reader" where
  "parse_save_field st fs f = Inr (st, fs @ [f], [])"

definition after_newline :: "char option \<Rightarrow> parser_state" where
  "after_newline c = (if c = None then START_RECORD else EAT_CRNL)"

definition is_newline :: "char option \<Rightarrow> bool" where
  "is_newline c = (c = Some LF \<or> c = Some CR \<or> c = None)"

text \<open>The \<open>START_FIELD\<close> case, which \<open>START_RECORD\<close> falls through to.\<close>

definition start_field :: "string list \<Rightarrow> string \<Rightarrow> char option \<Rightarrow> error + reader" where
  "start_field fs f c =
     (if is_newline c then parse_save_field (after_newline c) fs f
      else if c = Some DQUOTE then Inr (IN_QUOTED_FIELD, fs, f)
      else if c = Some COMMA then parse_save_field START_FIELD fs f
      else (case c of Some x \<Rightarrow> parse_add_char IN_FIELD fs f x | None \<Rightarrow> Inr (START_FIELD, fs, f)))"

fun parse_process_char :: "reader \<Rightarrow> char option \<Rightarrow> error + reader" where
  "parse_process_char (START_RECORD, fs, f) c =
     (if c = None then Inr (START_RECORD, fs, f)
      else if c = Some LF \<or> c = Some CR then Inr (EAT_CRNL, fs, f)
      else start_field fs f c)"
| "parse_process_char (START_FIELD, fs, f) c = start_field fs f c"
| "parse_process_char (IN_FIELD, fs, f) c =
     (if is_newline c then parse_save_field (after_newline c) fs f
      else if c = Some COMMA then parse_save_field START_FIELD fs f
      else (case c of Some x \<Rightarrow> parse_add_char IN_FIELD fs f x | None \<Rightarrow> Inr (IN_FIELD, fs, f)))"
| "parse_process_char (IN_QUOTED_FIELD, fs, f) c =
     (case c of
        None \<Rightarrow> Inr (IN_QUOTED_FIELD, fs, f)
      | Some x \<Rightarrow>
          if x = DQUOTE then Inr (QUOTE_IN_QUOTED_FIELD, fs, f)
          else parse_add_char IN_QUOTED_FIELD fs f x)"
| "parse_process_char (QUOTE_IN_QUOTED_FIELD, fs, f) c =
     (if c = Some DQUOTE then parse_add_char IN_QUOTED_FIELD fs f DQUOTE
      else if c = Some COMMA then parse_save_field START_FIELD fs f
      else if is_newline c then parse_save_field (after_newline c) fs f
      else (case c of Some x \<Rightarrow> parse_add_char IN_FIELD fs f x
            | None \<Rightarrow> Inr (QUOTE_IN_QUOTED_FIELD, fs, f)))"
| "parse_process_char (EAT_CRNL, fs, f) c =
     (if c = Some LF \<or> c = Some CR then Inr (EAT_CRNL, fs, f)
      else if c = None then Inr (START_RECORD, fs, f)
      else Inl CsvError)"

fun feed :: "reader \<Rightarrow> char option list \<Rightarrow> error + reader" where
  "feed r [] = Inr r"
| "feed r (c # cs) =
     (case parse_process_char r c of
        Inl e \<Rightarrow> Inl e
      | Inr r' \<Rightarrow> feed r' cs)"

text \<open>
  The records the reader yields from the lines, in order, and the module's error if one
  stops it. A record ends when a line leaves the parser in \<open>START_RECORD\<close>; at the end
  of the input a record still open inside a quoted field (or with a field begun) is
  yielded as it stands.
\<close>

fun reader_rows :: "reader \<Rightarrow> string list \<Rightarrow> string list list \<times> error option" where
  "reader_rows (st, fs, f) [] =
     (if f \<noteq> [] \<or> st = IN_QUOTED_FIELD then ([fs @ [f]], None) else ([], None))"
| "reader_rows r (l # ls) =
     (case feed r (map Some l @ [None]) of
        Inl e \<Rightarrow> ([], Some e)
      | Inr (st, fs, f) \<Rightarrow>
          if st = START_RECORD then
            (case reader_rows (START_RECORD, [], []) ls of (rows, e) \<Rightarrow> (fs # rows, e))
          else reader_rows (st, fs, f) ls)"

definition csv_reader :: "string list \<Rightarrow> string list list \<times> error option" where
  "csv_reader ls = reader_rows (START_RECORD, [], []) ls"

section \<open>FinanceManager: saving and loading\<close>

text \<open>
  Every operation returns the state after the call, what it printed, and the exception
  it raised, if any. The text of a float (\<open>str(x)\<close>, used by the writer for the amount)
  and its reading (\<open>float(s)\<close>, \<open>None\<close> for its \<open>ValueError\<close>) are Python built-ins;
  they are parameters \<open>fstr\<close> and \<open>fparse\<close> of the two transaction operations.
\<close>

subsection \<open>Transactions\<close>

definition header_row :: "string list" where
  "header_row = [''date'', ''transaction_type'', ''category'', ''amount'', ''description'']"

definition transaction_row :: "(real \<Rightarrow> string) \<Rightarrow> transaction \<Rightarrow> string list" where
  "transaction_row fstr t =
     (let details = Transaction_get_details t
      in [details_date details, details_transaction_type details, details_category details,
          fstr (details_amount details), details_description details])"

definition save_transactions ::
  "(real \<Rightarrow> string) \<Rightarrow> finance_manager \<Rightarrow> files \<Rightarrow> files \<times> message list \<times> error option" where
  "save_transactions fstr fm fs =
     (case transaction_file fs of
        Denied \<Rightarrow> (fs, [ErrorSavingTransactions], None)
      | _ \<Rightarrow>
          (fs\<lparr>transaction_file :=
                Content (writerow header_row @
                         concat (map (\<lambda>t. writerow (transaction_row fstr t)) (transactions fm)))\<rparr>,
           [], None))"

text \<open>The body of the inner \<open>try\<close> of \<open>load_transactions\<close>, for a row of five fields.\<close>

definition parse_row :: "(string \<Rightarrow> real option) \<Rightarrow> string list \<Rightarrow> error + transaction" where
  "parse_row fparse row =
     (case row of
        [r0, r1, r2, r3, r4] \<Rightarrow>
          (case strptime r0 of
             Inl e \<Rightarrow> Inl e
           | Inr parsed_date \<Rightarrow>
               (case fparse r3 of
                  None \<Rightarrow> Inl (ValueError ''could not convert string to float'')
                | Some x \<Rightarrow>
                    Transaction_init (PyDatetime parsed_date) (PyStr r1) (PyStr r2) (PyFloat x)
                      (PyStr r4)))
      | _ \<Rightarrow> Inl (ValueError ''row does not have five fields''))"

text \<open>\<open>except (ValueError, TypeError)\<close>; \<open>JSONDecodeError\<close> is a subclass of \<open>ValueError\<close>.\<close>

fun caught_ValueError_TypeError :: "error \<Rightarrow> bool" where
  "caught_ValueError_TypeError (ValueError m) = True"
| "caught_ValueError_TypeError (TypeError m) = True"
| "caught_ValueError_TypeError JSONDecodeError = True"
| "caught_ValueError_TypeError _ = False"

fun load_rows ::
  "(string \<Rightarrow> real option) \<Rightarrow> string list list \<Rightarrow> transaction list \<times> message list \<times> error option" where
  "load_rows fparse [] = ([], [], None)"
| "load_rows fparse (row # rows) =
     (if length row \<noteq> 5 then
        (case load_rows fparse rows of (ts, ms, r) \<Rightarrow> (ts, SkippingTransactionRow row # ms, r))
      else
        (case parse_row fparse row of
           Inr t \<Rightarrow> (case load_rows fparse rows of (ts, ms, r) \<Rightarrow> (t # ts, ms, r))
         | Inl e \<Rightarrow>
             if caught_ValueError_TypeError e then
               (case load_rows fparse rows of
                  (ts, ms, r) \<Rightarrow> (ts, SkippingTransactionRow row # ms, r))
             else ([], [], Some e)))"

text \<open>
  \<open>load_transactions\<close>: the list is cleared first; a missing file returns; a file that
  cannot be opened prints; otherwise \<open>next(reader)\<close> drops the header record (returning
  if there is none) and the loop appends one transaction per good row. An error of the
  \<open>csv\<close> module is caught by neither \<open>except\<close> clause.
\<close>

definition load_transactions ::
  "(string \<Rightarrow> real option) \<Rightarrow> finance_manager \<Rightarrow> files \<Rightarrow>
     finance_manager \<times> message list \<times> error option" where
  "load_transactions fparse fm fs =
     (let fm0 = fm\<lparr>transactions := []\<rparr>
      in case transaction_file fs of
           Missing \<Rightarrow> (fm0, [], None)
         | Denied \<Rightarrow> (fm0, [ErrorLoadingTransactions], None)
         | Content text \<Rightarrow>
             (case csv_reader (file_lines text) of
                ([], e) \<Rightarrow> (fm0, [], e)
              | (header # rows, e) \<Rightarrow>
                  (case load_rows fparse rows of
                     (ts, ms, r) \<Rightarrow>
                       (fm0\<lparr>transactions := ts\<rparr>, ms,
                        case r of Some e' \<Rightarrow> Some e' | None \<Rightarrow> e))))"

subsection \<open>Budgets\<close>



text \<open>
  \<open>v[key]\<close> for a string key: a dictionary gives the value or a \<open>KeyError\<close>; a list,
  a string or any other value gives a \<open>TypeError\<close>.
\<close>

definition py_getitem :: "pyval \<Rightarrow> string \<Rightarrow> error + pyval" where
  "py_getitem v k =
     (case v of
        PyDict kvs \<Rightarrow>
          (case map_of kvs k of
             None \<Rightarrow> Inl (KeyError k)
           | Some x \<Rightarrow> Inr x)
      | _ \<Rightarrow> Inl (TypeError ''value cannot be indexed by a string''))"

text \<open>
  \<open>for x in v\<close>: the elements of a list, the keys of a dictionary, the characters of a
  string; a \<open>TypeError\<close> for a value that is not iterable.
\<close>

definition py_iter :: "pyval \<Rightarrow> error + pyval list" where
  "py_iter v =
     (case v of
        PyList xs \<Rightarrow> Inr xs
      | PyDict kvs \<Rightarrow> Inr (map (\<lambda>kv. PyStr (fst kv)) kvs)
      | PyStr s \<Rightarrow> Inr (map (\<lambda>c. PyStr [c]) s)
      | _ \<Rightarrow> Inl (TypeError ''object is not iterable''))"

text \<open>The body of the inner \<open>try\<close> of \<open>load_budgets\<close>, up to the \<open>append\<close>.\<close>

definition load_budget_entry :: "pyval \<Rightarrow> error + budget" where
  "load_budget_entry budget_dict =
     (case py_getitem budget_dict ''category'' of
        Inl e \<Rightarrow> Inl e
      | Inr c \<Rightarrow>
     (case py_getitem budget_dict ''allocated_amount'' of
        Inl e \<Rightarrow> Inl e
      | Inr a \<Rightarrow>
     (case py_getitem budget_dict ''period'' of
        Inl e \<Rightarrow> Inl e
      | Inr p \<Rightarrow>
     (case Budget_init c a p of
        Inl e \<Rightarrow> Inl e
      | Inr b \<Rightarrow>
     (case py_getitem budget_dict ''spent_amount'' of
        Inl e \<Rightarrow> Inl e
      | Inr s \<Rightarrow> Inr (b\<lparr>spent_amount := s\<rparr>))))))"

text \<open>\<open>except (KeyError, ValueError)\<close>.\<close>

fun caught_KeyError_ValueError :: "error \<Rightarrow> bool" where
  "caught_KeyError_ValueError (KeyError k) = True"
| "caught_KeyError_ValueError (ValueError m) = True"
| "caught_KeyError_ValueError JSONDecodeError = True"
| "caught_KeyError_ValueError _ = False"

fun load_budget_entries :: "pyval list \<Rightarrow> budget list \<times> message list \<times> error option" where
  "load_budget_entries [] = ([], [], None)"
| "load_budget_entries (d # ds) =
     (case load_budget_entry d of
        Inr b \<Rightarrow> (case load_budget_entries ds of (bs, ms, r) \<Rightarrow> (b # bs, ms, r))
      | Inl e \<Rightarrow>
          if caught_KeyError_ValueError e then
            (case load_budget_entries ds of (bs, ms, r) \<Rightarrow> (bs, SkippingBudgetEntry d # ms, r))
          else ([], [], Some e))"

text \<open>
  \<open>load_budgets\<close>: the list is cleared first; a missing file returns; a file that
  cannot be opened prints; text that is not JSON, a document that cannot be iterated and
  an exception of the loop body other than \<open>KeyError\<close> and \<open>ValueError\<close> leave the
  method as exceptions, since the outer \<open>except\<close> names only \<open>PermissionError\<close> and
  \<open>OSError\<close>.
\<close>

definition load_budgets ::
  "finance_manager \<Rightarrow> files \<Rightarrow> finance_manager \<times> message list \<times> error option" where
  "load_budgets fm fs =
     (let fm0 = fm\<lparr>budgets := []\<rparr>
      in case budget_file fs of
           Missing \<Rightarrow> (fm0, [], None)
         | Denied \<Rightarrow> (fm0, [ErrorLoadingBudgets], None)
         | Content NotJson \<Rightarrow> (fm0, [], Some JSONDecodeError)
         | Content (Json loaded) \<Rightarrow>
             (case py_iter loaded of
                Inl e \<Rightarrow> (fm0, [], Some e)
              | Inr ds \<Rightarrow>
                  (case load_budget_entries ds of
                     (bs, ms, r) \<Rightarrow> (fm0\<lparr>budgets := bs\<rparr>, ms, r))))"

section \<open>Notions of the specification\<close>

text \<open>The number a text of decimal digits denotes, continuing from \<open>acc\<close>.\<close>

fun number_of :: "nat \<Rightarrow> string \<Rightarrow> nat option" where
  "number_of acc [] = Some acc"
| "number_of acc (c # cs) =
     (case digit_val c of
        None \<Rightarrow> None
      | Some v \<Rightarrow> number_of (10 * acc + v) cs)"





section \<open>Sample values\<close>

text \<open>
  The text of whole, non-negative floats below \<open>10^16\<close> (\<open>str(50.0)\<close> is \<open>50.0\<close>) and
  its reading back; these two stand in for \<open>str\<close> and \<open>float\<close> where an operation is
  run on sample data whose amounts are such numbers.
\<close>

fun digits :: "nat \<Rightarrow> string" where
  "digits n = (if n < 10 then [digit_char n] else digits (n div 10) @ [digit_char n])"

definition whole_float_str :: "real \<Rightarrow> string" where
  "whole_float_str x = digits (nat \<lfloor>x\<rfloor>) @ ''.0''"

definition whole_float_parse :: "string \<Rightarrow> real option" where
  "whole_float_parse s =
     (if 3 \<le> length s \<and> drop (length s - 2) s = ''.0''
        then map_option real (number_of 0 (take (length s - 2) s))
      else None)"

definition groceries :: transaction where
  "groceries =
     \<lparr>date = \<lparr>year = 2025, month = 6, day = 25, time_of_day = 0\<rparr>,
      transaction_type = ''expense'', transaction.category = ''Food'', amount = 50,
      description = ''Groceries''\<rparr>"

definition paycheck :: transaction where
  "paycheck =
     \<lparr>date = \<lparr>year = 2025, month = 6, day = 25, time_of_day = 0\<rparr>,
      transaction_type = ''income'', transaction.category = ''Salary'', amount = 1000,
      description = ''Paycheck''\<rparr>"

definition two_line_note :: transaction where
  "two_line_note =
     \<lparr>date = \<lparr>year = 2025, month = 6, day = 25, time_of_day = 0\<rparr>,
      transaction_type = ''expense'', transaction.category = ''Food'', amount = 50,
      description = ''milk'' @ [CR] @ ''eggs''\<rparr>"

definition food_budget :: budget where
  "food_budget =
     \<lparr>category = ''Food'', allocated_amount = 500, spent_amount = PyFloat 0,
      period = ''June 2025''\<rparr>"

definition rent_budget :: budget where
  "rent_budget =
     \<lparr>category = ''Rent'', allocated_amount = 1200, spent_amount = PyFloat 300,
      period = ''''\<rparr>"

definition no_files :: files where
  "no_files = \<lparr>transaction_file = Missing, budget_file = Missing\<rparr>"

text \<open>A budget record as \<open>save_budgets\<close> writes it.\<close>

definition budget_record :: "pyval \<Rightarrow> pyval \<Rightarrow> pyval \<Rightarrow> pyval \<Rightarrow> pyval \<Rightarrow> pyval" where
  "budget_record c a s r p =
     PyDict [(''category'', c), (''allocated_amount'', a), (''spent_amount'', s),
             (''remaining'', r), (''period'', p)]"

section \<open>Digits and dates\<close>






















section \<open>Evaluation on sample values\<close>

lemmas eval_defs = Transaction_init_def validate_date_def validate_transaction_type_def
  validate_category_def validate_amount_def validate_description_def py_strip_def py_isspace_def
  strptime_def match_month_then_dash_def match_day_def digit_val_def digit_of_def days_in_month_def
  is_leap_def Budget_init_def

lemma groceries_init:
  "Transaction_init (PyStr ''2025-06-25'') (PyStr ''expense'') (PyStr ''Food'') (PyFloat 50)
     (PyStr ''Groceries'') = Inr groceries"
  by (simp add: eval_defs groceries_def)


lemma food_budget_init:
  "Budget_init (PyStr ''Food'') (PyFloat 500) (PyStr ''June 2025'') = Inr food_budget"
  by (simp add: eval_defs food_budget_def)

section \<open>The constructors and the in-memory operations\<close>

lemma Transaction_init_Inr:
  assumes "Transaction_init d ty c a ds = Inr t"
  shows "validate_date d = Inr (date t)"
    and "ty = PyStr (transaction_type t)"
    and "transaction_type t = ''income'' \<or> transaction_type t = ''expense''"
    and "c = PyStr (transaction.category t)"
    and "py_strip (transaction.category t) \<noteq> []"
    and "py_number a = Some (amount t)"
    and "0 \<le> amount t"
    and "ds = PyStr (description t)"
  using assms
  by (auto simp: Transaction_init_def validate_transaction_type_def validate_category_def
      validate_amount_def validate_description_def
      split: sum.splits if_splits pyval.splits option.splits)



lemma find_budget_None: "find_budget bs c = None \<longleftrightarrow> c \<notin> set (map (\<lambda>b. PyStr (category b)) bs)"
  by (induction bs) auto

lemma find_budget_Some: "find_budget bs c = Some b \<Longrightarrow> c = PyStr (category b) \<and> b \<in> set bs"
  by (induction bs) (auto split: if_splits)

text \<open>
  C8: when a budget with exactly the requested category exists, \<open>add_budget\<close> raises
  the duplicate-category \<open>ValueError\<close> and the manager is unchanged; when none exists, a
  failure of the \<open>Budget\<close> constructor is raised with the manager unchanged, and
  otherwise the new budget is appended to the budgets.
\<close>

theorem add_budget_duplicate:
  "(s \<in> set (map category (budgets fm)) \<longrightarrow>
      add_budget fm (PyStr s) a p =
        (fm, [], Some (ValueError (''Budget for category '' @ s @ '' already exists''))))
   \<and> (c \<notin> set (map (\<lambda>b. PyStr (category b)) (budgets fm)) \<longrightarrow>
      (case Budget_init c a p of
         Inl e \<Rightarrow> add_budget fm c a p = (fm, [], Some e)
       | Inr b \<Rightarrow> add_budget fm c a p = (fm\<lparr>budgets := budgets fm @ [b]\<rparr>, [], None)))"
proof (intro conjI impI)
  assume "s \<in> set (map category (budgets fm))"
  then have "PyStr s \<in> set (map (\<lambda>b. PyStr (category b)) (budgets fm))" by auto
  then obtain b where b: "find_budget (budgets fm) (PyStr s) = Some b"
    using find_budget_None[of "budgets fm" "PyStr s"] by (cases "find_budget (budgets fm) (PyStr s)") auto
  then have "category b = s" using find_budget_Some[OF b] by simp
  with b show "add_budget fm (PyStr s) a p =
        (fm, [], Some (ValueError (''Budget for category '' @ s @ '' already exists'')))"
    by (simp add: add_budget_def)
next
  assume "c \<notin> set (map (\<lambda>b. PyStr (category b)) (budgets fm))"
  then have "find_budget (budgets fm) c = None" by (simp add: find_budget_None)
  then show "case Budget_init c a p of
         Inl e \<Rightarrow> add_budget fm c a p = (fm, [], Some e)
       | Inr b \<Rightarrow> add_budget fm c a p = (fm\<lparr>budgets := budgets fm @ [b]\<rparr>, [], None)"
    by (simp add: add_budget_def split: sum.splits)
qed

theorem add_budget_duplicate_witness:
  "add_budget \<lparr>transactions = [], budgets = [food_budget]\<rparr> (PyStr ''Food'') (PyFloat 500) (PyStr '''') =
     (\<lparr>transactions = [], budgets = [food_budget]\<rparr>, [],
      Some (ValueError ''Budget for category Food already exists''))
   \<and> add_budget \<lparr>transactions = [], budgets = [rent_budget]\<rparr> (PyStr ''Food'') (PyFloat 500)
       (PyStr ''June 2025'') =
     (\<lparr>transactions = [], budgets = [rent_budget, food_budget]\<rparr>, [], None)
   \<and> add_budget \<lparr>transactions = [], budgets = [rent_budget]\<rparr> (PyStr ''Food'') (PyFloat 0)
       (PyStr ''June 2025'') =
     (\<lparr>transactions = [], budgets = [rent_budget]\<rparr>, [],
      Some (ValueError ''Allocated amount must be positive''))"
proof -
  have z: "Budget_init (PyStr ''Food'') (PyFloat 0) (PyStr ''June 2025'') =
      Inl (ValueError ''Allocated amount must be positive'')"
    by (simp add: eval_defs)
  show ?thesis
    using add_budget_duplicate[of "''Food''" "\<lparr>transactions = [], budgets = [food_budget]\<rparr>"
        "PyFloat 500" "PyStr ''''" "PyStr ''Food''"]
      add_budget_duplicate[of "''Food''" "\<lparr>transactions = [], budgets = [rent_budget]\<rparr>"
        "PyFloat 500" "PyStr ''June 2025''" "PyStr ''Food''"]
      add_budget_duplicate[of "''Food''" "\<lparr>transactions = [], budgets = [rent_budget]\<rparr>"
        "PyFloat 0" "PyStr ''June 2025''" "PyStr ''Food''"]
    by (simp add: food_budget_init z) (simp add: food_budget_def rent_budget_def)
qed

lemma update_first_budget_no_match:
  "c \<notin> set (map (\<lambda>b. PyStr (category b)) bs) \<Longrightarrow>
   update_first_budget bs c t = (bs, [NoBudgetFound (transaction.category t)], None)"
  by (induction bs) auto

text \<open>
  C9: adding a valid expense whose category no budget has does not fail: the
  transaction is appended to the transactions, the notice that no budget was found for
  the category is printed, and the budgets are unchanged.
\<close>

theorem add_transaction_no_budget:
  assumes "Transaction_init d (PyStr ''expense'') c a ds = Inr t"
    and "transaction.category t \<notin> set (map category (budgets fm))"
  shows "add_transaction fm d (PyStr ''expense'') c a ds =
           (fm\<lparr>transactions := transactions fm @ [t]\<rparr>,
            [NoBudgetFound (transaction.category t)], None)"
proof -
  have c: "c = PyStr (transaction.category t)" using Transaction_init_Inr(4)[OF assms(1)] .
  have "c \<notin> set (map (\<lambda>b. PyStr (category b)) (budgets fm))" using assms(2) c by auto
  then show ?thesis
    using assms(1) by (simp add: add_transaction_def update_first_budget_no_match)
qed

theorem add_transaction_no_budget_witness:
  "Transaction_init (PyStr ''2025-06-25'') (PyStr ''expense'') (PyStr ''Food'') (PyFloat 50)
     (PyStr ''Groceries'') = Inr groceries
   \<and> transaction.category groceries \<notin> set (map category [rent_budget])
   \<and> add_transaction \<lparr>transactions = [paycheck], budgets = [rent_budget]\<rparr>
       (PyStr ''2025-06-25'') (PyStr ''expense'') (PyStr ''Food'') (PyFloat 50) (PyStr ''Groceries'') =
     (\<lparr>transactions = [paycheck, groceries], budgets = [rent_budget]\<rparr>,
      [NoBudgetFound ''Food''], None)"
proof -
  have n: "transaction.category groceries \<notin> set (map category (budgets \<lparr>transactions = [paycheck], budgets = [rent_budget]\<rparr>))"
    by (simp add: groceries_def rent_budget_def)
  have c: "transaction.category groceries = ''Food''" by (simp add: groceries_def)
  show ?thesis
    using add_transaction_no_budget[OF groceries_init n] groceries_init n c by simp
qed







section \<open>Persistence\<close>









text \<open>
  C3, as amended: when the backing file exists but opening it raises an I/O error,
  \<open>load_transactions\<close> and \<open>load_budgets\<close> print their error message and raise
  nothing; the collection being loaded is empty afterwards, since it is cleared before
  the file is opened, and the other collection is unchanged.
\<close>

theorem load_denied_clears:
  "(transaction_file fs = Denied \<longrightarrow>
      load_transactions fparse fm fs = (fm\<lparr>transactions := []\<rparr>, [ErrorLoadingTransactions], None))
   \<and> (budget_file fs = Denied \<longrightarrow>
      load_budgets fm fs = (fm\<lparr>budgets := []\<rparr>, [ErrorLoadingBudgets], None))"
  by (simp add: load_transactions_def load_budgets_def)

theorem load_denied_clears_witness:
  "load_transactions whole_float_parse \<lparr>transactions = [groceries], budgets = [food_budget]\<rparr>
     \<lparr>transaction_file = Denied, budget_file = Denied\<rparr> =
     (\<lparr>transactions = [], budgets = [food_budget]\<rparr>, [ErrorLoadingTransactions], None)
   \<and> load_budgets \<lparr>transactions = [groceries], budgets = [food_budget]\<rparr>
     \<lparr>transaction_file = Denied, budget_file = Denied\<rparr> =
     (\<lparr>transactions = [groceries], budgets = []\<rparr>, [ErrorLoadingBudgets], None)"
  using load_denied_clears[of "\<lparr>transaction_file = Denied, budget_file = Denied\<rparr>" whole_float_parse
      "\<lparr>transactions = [groceries], budgets = [food_budget]\<rparr>"]
  by simp

text \<open>
  C3 as stated fails: a manager holding one transaction that loads from a transaction
  file it cannot open holds no transaction afterwards.
\<close>

theorem load_denied_counterexample:
  "load_transactions whole_float_parse \<lparr>transactions = [groceries], budgets = [food_budget]\<rparr>
     \<lparr>transaction_file = Denied, budget_file = Missing\<rparr> =
     (\<lparr>transactions = [], budgets = [food_budget]\<rparr>, [ErrorLoadingTransactions], None)
   \<and> \<lparr>transactions = [], budgets = [food_budget]\<rparr> \<noteq>
       \<lparr>transactions = [groceries], budgets = [food_budget]\<rparr>"
  by (simp add: load_transactions_def)

text \<open>
  C4 fails on the code: the first record below fails \<open>Budget\<close> validation with a
  \<open>TypeError\<close> (its allocated amount is a string), which \<open>load_budgets\<close> does not
  catch. The load is aborted by the exception: no warning is printed, and the valid
  record that follows is not loaded.
\<close>

theorem load_budgets_type_error_aborts:
  "load_budgets \<lparr>transactions = [], budgets = []\<rparr>
     \<lparr>transaction_file = Missing,
      budget_file = Content (Json (PyList
        [budget_record (PyStr ''Food'') (PyStr ''abc'') (PyFloat 0) (PyFloat 0) (PyStr ''June''),
         budget_record (PyStr ''Rent'') (PyFloat 1200) (PyFloat 300) (PyFloat 900) (PyStr '''')]))\<rparr> =
     (\<lparr>transactions = [], budgets = []\<rparr>, [],
      Some (TypeError ''Allocated amount must be a number''))"
  by (simp add: load_budgets_def py_iter_def load_budget_entry_def budget_record_def py_getitem_def
      eval_defs)

text \<open>
  The in-memory operations keep the categories of the budgets distinct: \<open>add_budget\<close>
  appends only a category no budget has, and \<open>add_transaction\<close> changes no category.
\<close>

lemma Budget_init_category:
  "Budget_init c a p = Inr b \<Longrightarrow> c = PyStr (category b)"
  by (auto simp: Budget_init_def validate_category_def
      split: sum.splits pyval.splits option.splits if_splits)

lemma add_budget_distinct:
  assumes "distinct (map category (budgets fm))"
    and "add_budget fm c a p = (fm', printed, raised)"
  shows "distinct (map category (budgets fm'))"
proof (cases "find_budget (budgets fm) c")
  case (Some b)
  then show ?thesis using assms by (simp add: add_budget_def)
next
  case None
  show ?thesis
  proof (cases "Budget_init c a p")
    case (Inl e)
    then show ?thesis using assms None by (simp add: add_budget_def)
  next
    case (Inr b)
    have "c \<notin> set (map (\<lambda>b. PyStr (category b)) (budgets fm))"
      using None by (simp add: find_budget_None)
    then have "category b \<notin> set (map category (budgets fm))"
      using Budget_init_category[OF Inr] by auto
    then show ?thesis using assms None Inr by (auto simp: add_budget_def)
  qed
qed

lemma add_expense_category: "add_expense b t = (b', r) \<Longrightarrow> category b' = category b"
  by (auto simp: add_expense_def split: if_splits sum.splits)

lemma update_first_budget_categories:
  "update_first_budget bs c t = (bs', printed, raised) \<Longrightarrow> map category bs' = map category bs"
proof (induction bs arbitrary: bs' printed raised)
  case Nil
  then show ?case by simp
next
  case (Cons b bs)
  show ?case
  proof (cases "PyStr (category b) = c")
    case True
    then show ?thesis
      using Cons.prems add_expense_category[of b t]
      by (auto split: prod.splits)
  next
    case False
    then show ?thesis
      using Cons.prems Cons.IH
      by (auto split: prod.splits)
  qed
qed

lemma add_transaction_categories:
  assumes "add_transaction fm d ty c a ds = (fm', printed, raised)"
  shows "map category (budgets fm') = map category (budgets fm)"
  using assms update_first_budget_categories
  by (auto simp: add_transaction_def Let_def split: sum.splits if_splits prod.splits)

text \<open>
  C10 fails on the code: \<open>load_budgets\<close> makes no duplicate check, so a budget file
  with two records of one category loads as two budgets of that category.
\<close>

theorem load_budgets_duplicate_categories:
  "load_budgets \<lparr>transactions = [], budgets = []\<rparr>
     \<lparr>transaction_file = Missing,
      budget_file = Content (Json (PyList
        [budget_record (PyStr ''Food'') (PyFloat 500) (PyFloat 0) (PyFloat 500) (PyStr ''June''),
         budget_record (PyStr ''Food'') (PyFloat 100) (PyFloat 0) (PyFloat 100) (PyStr ''July'')]))\<rparr> =
     (\<lparr>transactions = [],
       budgets = [\<lparr>category = ''Food'', allocated_amount = 500, spent_amount = PyFloat 0, period = ''June''\<rparr>,
                  \<lparr>category = ''Food'', allocated_amount = 100, spent_amount = PyFloat 0, period = ''July''\<rparr>]\<rparr>,
      [], None)"
  by (simp add: load_budgets_def py_iter_def load_budget_entry_def budget_record_def py_getitem_def
      eval_defs)

lemmas csv_defs = save_transactions_def writerow_def quote_field_def needs_quotes_def
  transaction_row_def header_row_def Transaction_get_details_def strftime_def pad4_def pad2_def
  digit_char_def whole_float_str_def load_transactions_def file_lines_def csv_reader_def
  start_field_def parse_add_char_def field_limit_def parse_save_field_def after_newline_def
  is_newline_def parse_row_def whole_float_parse_def

lemma save_two_line_note:
  "save_transactions whole_float_str \<lparr>transactions = [two_line_note], budgets = []\<rparr> no_files =
     (no_files\<lparr>transaction_file := Content
        (''date,transaction_type,category,amount,description'' @ [CR, LF] @
         ''2025-06-25,expense,Food,50.0,'' @ [DQUOTE] @ ''milk'' @ [CR] @ ''eggs'' @ [DQUOTE, CR, LF])\<rparr>,
      [], None)"
  by (simp add: csv_defs two_line_note_def no_files_def)

lemma load_two_line_note:
  "load_transactions whole_float_parse \<lparr>transactions = [], budgets = []\<rparr>
     (no_files\<lparr>transaction_file := Content
        (''date,transaction_type,category,amount,description'' @ [CR, LF] @
         ''2025-06-25,expense,Food,50.0,'' @ [DQUOTE] @ ''milk'' @ [CR] @ ''eggs'' @ [DQUOTE, CR, LF])\<rparr>) =
     (\<lparr>transactions = [two_line_note\<lparr>description := ''milk'' @ [LF] @ ''eggs''\<rparr>], budgets = []\<rparr>,
      [], None)"
  by (simp add: csv_defs eval_defs two_line_note_def no_files_def)

text \<open>
  C1 fails on the code: a valid transaction whose description contains a carriage
  return is written with the carriage return inside a quoted field, and read back with
  a line feed in its place, because the file is read with universal newlines. The
  reloaded description differs from the saved one.
\<close>

theorem save_load_carriage_return:
  "save_transactions whole_float_str \<lparr>transactions = [two_line_note], budgets = []\<rparr> no_files =
     (no_files\<lparr>transaction_file := Content
        (''date,transaction_type,category,amount,description'' @ [CR, LF] @
         ''2025-06-25,expense,Food,50.0,'' @ [DQUOTE] @ ''milk'' @ [CR] @ ''eggs'' @ [DQUOTE, CR, LF])\<rparr>,
      [], None)
   \<and> load_transactions whole_float_parse \<lparr>transactions = [], budgets = []\<rparr>
     (no_files\<lparr>transaction_file := Content
        (''date,transaction_type,category,amount,description'' @ [CR, LF] @
         ''2025-06-25,expense,Food,50.0,'' @ [DQUOTE] @ ''milk'' @ [CR] @ ''eggs'' @ [DQUOTE, CR, LF])\<rparr>) =
     (\<lparr>transactions = [two_line_note\<lparr>description := ''milk'' @ [LF] @ ''eggs''\<rparr>], budgets = []\<rparr>,
      [], None)
   \<and> description two_line_note = ''milk'' @ [CR] @ ''eggs''"
  using save_two_line_note load_two_line_note by (simp add: two_line_note_def)

end
